theory Spec2Isabelle
  imports Main "HOL-Library.Sublist"
begin

section \<open>Strings of the host language\<close>

text \<open>
  A string is its sequence of UTF-16 code units, each an integer from 0 to 65535; \<open>str\<close>
  turns an ASCII literal of the source into such a sequence. Equality, concatenation,
  truthiness (a string is truthy when it is not empty) and the substring test
  \<open>includes\<close> (here \<open>includes_str\<close>) work on code units as the built-ins do.
\<close>

type_synonym js_string = "int list"

definition str :: "string \<Rightarrow> js_string" where
  "str s = map of_char s"

fun includes_str :: "js_string \<Rightarrow> js_string \<Rightarrow> bool" where
  "includes_str [] q = (q = [])"
| "includes_str (c # cs) q = (prefix q (c # cs) \<or> includes_str cs q)"

definition truthy :: "js_string \<Rightarrow> bool" where
  "truthy s = (s \<noteq> [])"

text \<open>An optional string (a field that may be absent) is truthy when present and not
  empty.\<close>

fun truthy_opt :: "js_string option \<Rightarrow> bool" where
  "truthy_opt None = False"
| "truthy_opt (Some s) = truthy s"

text \<open>
  \<open>trim\<close> removes leading and trailing white space and line terminators. These are the
  code units U+0009 to U+000D, U+0020, U+00A0, U+1680, U+2000 to U+200A, U+2028, U+2029,
  U+202F, U+205F, U+3000 and U+FEFF; each is a single code unit.
\<close>

definition is_whitespace :: "int \<Rightarrow> bool" where
  "is_whitespace u =
     (u \<in> {0x09, 0x0A, 0x0B, 0x0C, 0x0D, 0x20, 0xA0, 0x1680, 0x2028, 0x2029, 0x202F,
            0x205F, 0x3000, 0xFEFF}
      \<or> (0x2000 \<le> u \<and> u \<le> 0x200A))"

definition trim :: "js_string \<Rightarrow> js_string" where
  "trim s = rev (dropWhile is_whitespace (rev (dropWhile is_whitespace s)))"

text \<open>
  \<open>toLowerCase\<close> follows the case mapping tables of the Unicode standard, which are not
  part of the component. The functions that call it take it as their first argument,
  and what is proved of them holds for every such function.
\<close>

text \<open>
  Comparisons of an optional number with zero: an absent value (\<open>undefined\<close>) compares
  false both ways.
\<close>

fun gt_zero :: "int option \<Rightarrow> bool" where
  "gt_zero None = False"
| "gt_zero (Some r) = (r > 0)"

fun lt_zero :: "int option \<Rightarrow> bool" where
  "lt_zero None = False"
| "lt_zero (Some r) = (r < 0)"

section \<open>Data model\<close>

text \<open>
  The \<open>Feedback\<close> type of the component (lines 35 to 75 of \<open>Feedbacks.svelte\<close>). Every
  field the code reads through optional chaining or guards with a truthiness test is
  optional here, so that the model covers the records the code is written to tolerate.
  A rating is an integer (-1, 0 or 1 by convention). Field names that clash are told
  apart by a prefix or suffix: \<open>id_fb\<close> is \<open>id\<close>, \<open>chat_chat\<close> is the inner \<open>chat\<close>,
  \<open>details_rating\<close>, \<open>error_content\<close>, \<open>meta_model_id\<close> and \<open>meta_tags\<close> are the
  \<open>rating\<close>, \<open>content\<close>, \<open>model_id\<close> and \<open>tags\<close> of \<open>details\<close>, \<open>error\<close> and \<open>meta\<close>.
\<close>

record fb_details =
  details_rating :: "int option"

record fb_data =
  rating :: "int option"
  model_id :: js_string
  sibling_model_ids :: "js_string list option"
  reason :: js_string
  comment :: js_string
  tags :: "js_string list"
  details :: "fb_details option"

record fb_user =
  name :: js_string
  profile_image_url :: js_string

record msg_error =
  error_content :: "js_string option"

record message =
  role :: js_string
  content :: "js_string option"
  annotation :: "js_string option"
  feedbackId :: "js_string option"
  error :: "msg_error option"

record chat_body =
  messages :: "message list option"

record chat_t =
  title :: "js_string option"
  chat_chat :: "chat_body option"

record snapshot_t =
  chat :: "chat_t option"

record fb_meta =
  meta_model_id :: "js_string option"
  meta_tags :: "js_string list option"

text \<open>
  The type annotates nothing at run time: a record is a plain object and may own
  properties the type does not declare (the records of the export carry a \<open>user_id\<close>, for
  one). They are kept, with their values, in \<open>other_properties\<close>.
\<close>

datatype field_value =
    VNull
  | VString js_string
  | VNumber int
  | VData fb_data
  | VUser fb_user
  | VSnapshot snapshot_t
  | VMeta fb_meta

type_synonym js_object = "(js_string \<times> field_value) list"

record feedback =
  id_fb :: js_string
  data :: "fb_data option"
  user :: fb_user
  updated_at :: int
  created_at :: "int option"
  browser_id :: "js_string option"
  snapshot :: "snapshot_t option"
  meta :: "fb_meta option"
  other_properties :: js_object

text \<open>The optional-chaining reads \<open>item.data?.rating\<close>, \<open>item.snapshot?.chat?.title\<close> and
  \<open>item.snapshot?.chat?.chat?.messages\<close>.\<close>

definition data_rating :: "feedback \<Rightarrow> int option" where
  "data_rating item = Option.bind (data item) rating"

definition snapshot_title :: "feedback \<Rightarrow> js_string option" where
  "snapshot_title item = Option.bind (Option.bind (snapshot item) chat) title"

definition snapshot_messages :: "feedback \<Rightarrow> message list option" where
  "snapshot_messages item =
     Option.bind (Option.bind (Option.bind (snapshot item) chat) chat_chat) messages"

section \<open>Component state\<close>

text \<open>
  The module-level variables of the component (lines 25 to 30 and 84 to 86), and the
  toasts shown so far. Every handler takes the state and returns the new one.
\<close>

datatype toast = ToastError js_string | ToastInfo js_string | ToastSuccess js_string

record state =
  feedbacks :: "feedback list"
  originalFeedbacksData :: "feedback list"
  parsedFeedbacksData :: "feedback list"
  showFeedbackAnalysis :: bool
  activeFilter :: js_string
  searchQuery :: js_string
  totalItems :: nat
  positiveCount :: nat
  negativeCount :: nat
  toasts :: "toast list"

text \<open>The outcome of an awaited call to the external API: the promise rejects with an
  error, or resolves with a value.\<close>

datatype 'a api_result = Rejected js_string | Resolved 'a

section \<open>Filtering and statistics\<close>

text \<open>The callback of the search filter (lines 211 to 227): title first, then the
  messages.\<close>

definition message_matches ::
  "(js_string \<Rightarrow> js_string) \<Rightarrow> js_string \<Rightarrow> message \<Rightarrow> bool" where
  "message_matches toLowerCase lowerQuery m =
     (case content m of
        None \<Rightarrow> False
      | Some c \<Rightarrow> truthy c \<and> includes_str (toLowerCase c) lowerQuery)"

definition search_matches ::
  "(js_string \<Rightarrow> js_string) \<Rightarrow> js_string \<Rightarrow> feedback \<Rightarrow> bool" where
  "search_matches toLowerCase lowerQuery item =
     (if (case snapshot_title item of
            None \<Rightarrow> False
          | Some t \<Rightarrow> truthy t \<and> includes_str (toLowerCase t) lowerQuery)
      then True
      else (case snapshot_messages item of
              Some ms \<Rightarrow> list_ex (message_matches toLowerCase lowerQuery) ms
            | None \<Rightarrow> False))"

text \<open>
  \<open>filterFeedbackItems\<close> (lines 194 to 235): start from the original data, apply the
  rating filter of the mode, then the search when the trimmed query is truthy.
\<close>

definition filterFeedbackItems ::
  "(js_string \<Rightarrow> js_string) \<Rightarrow> js_string \<Rightarrow> js_string \<Rightarrow> state \<Rightarrow> state" where
  "filterFeedbackItems toLowerCase filterType query st =
     (let filteredItems = originalFeedbacksData st;
          filteredItems =
            (if filterType = str ''positive''
               then filter (\<lambda>item. gt_zero (data_rating item)) filteredItems
             else if filterType = str ''negative''
               then filter (\<lambda>item. lt_zero (data_rating item)) filteredItems
             else filteredItems);
          filteredItems =
            (if truthy (trim query)
               then (let lowerQuery = toLowerCase query
                     in filter (search_matches toLowerCase lowerQuery) filteredItems)
             else filteredItems)
      in st\<lparr>activeFilter := filterType, searchQuery := query,
            parsedFeedbacksData := filteredItems\<rparr>)"

text \<open>
  \<open>processFeedbackData\<close> (lines 173 to 192). \<open>count_item\<close> is one round of its \<open>forEach\<close>
  loop; the call of \<open>debugStructure\<close> there only writes to the console.
\<close>

definition count_item :: "feedback \<Rightarrow> state \<Rightarrow> state" where
  "count_item item st =
     (let r = data_rating item
      in if gt_zero r then st\<lparr>positiveCount := positiveCount st + 1\<rparr>
         else if lt_zero r then st\<lparr>negativeCount := negativeCount st + 1\<rparr>
         else st)"

definition processFeedbackData ::
  "(js_string \<Rightarrow> js_string) \<Rightarrow> feedback list \<Rightarrow> state \<Rightarrow> state" where
  "processFeedbackData toLowerCase feedbackData st =
     (let st1 = st\<lparr>originalFeedbacksData := feedbackData,
                    totalItems := length feedbackData,
                    positiveCount := 0, negativeCount := 0\<rparr>;
          st2 = fold count_item feedbackData st1
      in filterFeedbackItems toLowerCase (str ''all'') (str '''') st2)"

text \<open>\<open>toggleFeedbackAnalysis\<close> (lines 166 to 171).\<close>

definition toggleFeedbackAnalysis :: "(js_string \<Rightarrow> js_string) \<Rightarrow> state \<Rightarrow> state" where
  "toggleFeedbackAnalysis toLowerCase st =
     (let st1 = st\<lparr>showFeedbackAnalysis := \<not> showFeedbackAnalysis st\<rparr>
      in if showFeedbackAnalysis st1 \<and> length (parsedFeedbacksData st1) = 0
         then processFeedbackData toLowerCase (feedbacks st1) st1
         else st1)"

text \<open>
  \<open>refreshFeedbacksAnalysis\<close> (lines 269 to 283): the information toast, then the awaited
  export. A rejected promise is caught and reported; a resolved value is processed when
  it is truthy (\<open>None\<close> stands for a falsy response such as \<open>null\<close>; every array is
  truthy).
\<close>

definition refreshFeedbacksAnalysis ::
  "(js_string \<Rightarrow> js_string) \<Rightarrow> feedback list option api_result \<Rightarrow> state \<Rightarrow> state" where
  "refreshFeedbacksAnalysis toLowerCase res st =
     (let st1 = st\<lparr>toasts := toasts st
                    @ [ToastInfo (str ''Refreshing feedback analysis...'')]\<rparr>
      in case res of
           Rejected err \<Rightarrow> st1\<lparr>toasts := toasts st1 @ [ToastError err]\<rparr>
         | Resolved None \<Rightarrow> st1
         | Resolved (Some refreshedFeedbacks) \<Rightarrow>
             (let st2 = processFeedbackData toLowerCase refreshedFeedbacks st1
              in st2\<lparr>toasts := toasts st2 @
                     [ToastSuccess (str ''Feedback analysis refreshed successfully!'')]\<rparr>))"

section \<open>Action handlers\<close>

text \<open>
  \<open>deleteFeedbackHandler\<close> (lines 94 to 102): a rejected call is turned into an error
  toast and a \<open>null\<close> response; the local list is filtered only when the response is
  truthy (the boolean carried by \<open>Resolved\<close> is the truthiness of the response).
\<close>

definition deleteFeedbackHandler :: "js_string \<Rightarrow> bool api_result \<Rightarrow> state \<Rightarrow> state" where
  "deleteFeedbackHandler fbId res st =
     (case res of
        Rejected err \<Rightarrow> st\<lparr>toasts := toasts st @ [ToastError err]\<rparr>
      | Resolved response \<Rightarrow>
          (if response
             then st\<lparr>feedbacks := filter (\<lambda>f. id_fb f \<noteq> fbId) (feedbacks st)\<rparr>
           else st))"






section \<open>Conversation formatter\<close>

text \<open>
  \<open>formatConversation\<close> (lines 237 to 266). The local constants of the per-message
  callback are functions of the message; \<open>line_break n\<close> is the line feed and the \<open>n\<close>
  tabs between two lines of the template literal.
\<close>

definition noConversationData :: js_string where
  "noConversationData =
     str ''<p class=\"text-gray-500 dark:text-gray-400 text-sm\">No conversation data available</p>''"

definition line_break :: "nat \<Rightarrow> js_string" where
  "line_break n = 0x0A # replicate n 0x09"

definition isUser :: "message \<Rightarrow> bool" where
  "isUser m = (role m = str ''user'')"

definition className :: "message \<Rightarrow> js_string" where
  "className m =
     (if isUser m then str ''bg-gray-50 dark:bg-gray-800 p-3 rounded-lg mb-2''
      else str ''bg-gray-100 dark:bg-gray-700 p-3 rounded-lg mb-2'')"

definition hasFeedback :: "message \<Rightarrow> bool" where
  "hasFeedback m = (truthy_opt (annotation m) \<or> truthy_opt (feedbackId m))"

definition feedbackHighlight :: "message \<Rightarrow> js_string" where
  "feedbackHighlight m =
     (if hasFeedback m then str ''border-2 border-red-500 dark:border-red-400'' else [])"

definition error_text :: "message \<Rightarrow> js_string option" where
  "error_text m = Option.bind (error m) error_content"

definition error_block :: "js_string \<Rightarrow> js_string" where
  "error_block e =
     str ''<div class=\"text-red-500 dark:text-red-400 text-xs mt-1\">'' @ e @ str ''</div>''"

definition displayContent :: "message \<Rightarrow> js_string" where
  "displayContent m =
     (let shown = (case content m of None \<Rightarrow> [] | Some c \<Rightarrow> c)
      in case error_text m of
           None \<Rightarrow> shown
         | Some e \<Rightarrow> if truthy e then shown @ error_block e else shown)"

definition speaker :: "message \<Rightarrow> js_string" where
  "speaker m = (if isUser m then str ''User'' else str ''Assistant'')"

definition feedback_marker :: js_string where
  "feedback_marker =
     str ''<div class=\"text-red-500 dark:text-red-400 text-xs font-medium mt-1\">[This message received feedback]</div>''"

definition feedbackMarker :: "message \<Rightarrow> js_string" where
  "feedbackMarker m = (if hasFeedback m then feedback_marker else [])"

text \<open>The template literal of the per-message callback, with its five holes.\<close>

definition message_template ::
  "js_string \<Rightarrow> js_string \<Rightarrow> js_string \<Rightarrow> js_string \<Rightarrow> js_string \<Rightarrow> js_string" where
  "message_template cls highlight who body marker =
     line_break 4 @ str ''<div class=\"'' @ cls @ str '' '' @ highlight @ str ''\">''
     @ line_break 5 @ str ''<div class=\"font-medium text-gray-700 dark:text-gray-300\">''
     @ who @ str ''</div>''
     @ line_break 5 @ str ''<div class=\"text-sm mt-1 text-gray-600 dark:text-gray-300\">''
     @ body @ str ''</div>''
     @ line_break 5 @ marker
     @ line_break 4 @ str ''</div>''
     @ line_break 3"

definition renderMessage :: "message \<Rightarrow> js_string" where
  "renderMessage m =
     message_template (className m) (feedbackHighlight m) (speaker m)
       (displayContent m) (feedbackMarker m)"

text \<open>\<open>None\<close> is any argument that is not an array.\<close>

fun formatConversation :: "message list option \<Rightarrow> js_string" where
  "formatConversation None = noConversationData"
| "formatConversation (Some msgs) = concat (map renderMessage msgs)"

section \<open>Example inputs\<close>

text \<open>The state of the component when it is created, and records to try the
  operations on.\<close>

definition initial_state :: state where
  "initial_state =
     \<lparr>feedbacks = [], originalFeedbacksData = [], parsedFeedbacksData = [],
      showFeedbackAnalysis = False, activeFilter = str ''all'', searchQuery = [],
      totalItems = 0, positiveCount = 0, negativeCount = 0, toasts = []\<rparr>"

definition example_feedback :: "string \<Rightarrow> int option \<Rightarrow> snapshot_t option \<Rightarrow> feedback" where
  "example_feedback i r s =
     \<lparr>id_fb = str i,
      data = Some \<lparr>rating = r, model_id = str ''m'', sibling_model_ids = None, reason = [],
                   comment = [], tags = [], details = None\<rparr>,
      user = \<lparr>name = str ''u'', profile_image_url = []\<rparr>,
      updated_at = 0, created_at = None, browser_id = None, snapshot = s, meta = None,
      other_properties = []\<rparr>"

definition example_message :: "string \<Rightarrow> string \<Rightarrow> message" where
  "example_message r c =
     \<lparr>role = str r, content = Some (str c), annotation = None, feedbackId = None,
      error = None\<rparr>"

definition example_snapshot :: "string \<Rightarrow> message list \<Rightarrow> snapshot_t" where
  "example_snapshot t ms =
     \<lparr>chat = Some \<lparr>title = Some (str t), chat_chat = Some \<lparr>messages = Some ms\<rparr>\<rparr>\<rparr>"

definition won :: feedback where
  "won = example_feedback ''a'' (Some 1) None"

definition lost :: feedback where
  "lost = example_feedback ''b'' (Some (- 1)) None"

definition draw :: feedback where
  "draw = example_feedback ''c'' (Some 0) None"

definition unrated :: feedback where
  "unrated = (example_feedback ''d'' None None)\<lparr>data := None\<rparr>"

definition titled :: feedback where
  "titled = example_feedback ''e'' (Some 1) (Some (example_snapshot ''Hello World'' []))"

definition messaged :: feedback where
  "messaged = example_feedback ''f'' (Some (- 1))
     (Some (example_snapshot ''Other'' [example_message ''user'' ''say hello there'']))"

text \<open>
  A case mapping for the examples: the built-in one on the code units below 256, where
  it adds 32 to the capitals \<open>A\<close> to \<open>Z\<close>, U+00C0 to U+00D6 and U+00D8 to U+00DE.
\<close>

definition example_toLowerCase :: "js_string \<Rightarrow> js_string" where
  "example_toLowerCase s =
     map (\<lambda>u. if (0x41 \<le> u \<and> u \<le> 0x5A) \<or> (0xC0 \<le> u \<and> u \<le> 0xD6) \<or> (0xD8 \<le> u \<and> u \<le> 0xDE)
              then u + 0x20 else u) s"

text \<open>A record whose transcript title starts with the capital U+00C9.\<close>

definition accented :: feedback where
  "accented =
     (example_feedback ''h'' (Some 0) None)
       \<lparr>snapshot := Some \<lparr>chat = Some \<lparr>title = Some (0xC9 # str ''COLE''),
                                          chat_chat = None\<rparr>\<rparr>\<rparr>"

text \<open>The analysis panel after loading the three records rated 1, -1 and 0.\<close>

definition analysed :: state where
  "analysed = processFeedbackData example_toLowerCase [won, lost, draw] initial_state"

text \<open>The analysis panel after loading records with transcripts.\<close>

definition analysed_transcripts :: state where
  "analysed_transcripts =
     processFeedbackData example_toLowerCase [won, titled, messaged, accented] initial_state"

text \<open>The panel showing only the positive records.\<close>

definition positive_view :: state where
  "positive_view = filterFeedbackItems example_toLowerCase (str ''positive'') [] analysed"

text \<open>
  A session: the table holds two records, the panel is opened and closed again; and a
  longer one: the panel is opened, one record is deleted, a search that finds nothing is
  typed, and the panel is closed.
\<close>

definition loaded_table :: state where
  "loaded_table = initial_state\<lparr>feedbacks := [won, lost]\<rparr>"

definition panel_open :: state where
  "panel_open = toggleFeedbackAnalysis example_toLowerCase loaded_table"

definition panel_closed :: state where
  "panel_closed = toggleFeedbackAnalysis example_toLowerCase panel_open"

definition hidden_empty_view :: state where
  "hidden_empty_view =
     toggleFeedbackAnalysis example_toLowerCase
       (filterFeedbackItems example_toLowerCase (str ''positive'') (str ''zzz'')
          (deleteFeedbackHandler (str ''b'') (Resolved True) panel_open))"



text \<open>An assistant message that carries an annotation, one with an error, and a
  message of the user.\<close>

definition flagged_message :: message where
  "flagged_message = (example_message ''assistant'' ''ok'')\<lparr>annotation := Some (str ''bad'')\<rparr>"

definition failed_message :: message where
  "failed_message =
     (example_message ''assistant'' ''ok'')
       \<lparr>error := Some \<lparr>error_content = Some (str ''boom'')\<rparr>\<rparr>"

definition user_message :: message where
  "user_message = example_message ''user'' ''hi''"


section \<open>Auxiliary facts\<close>

lemma str_eq_iff: "str a = str b \<longleftrightarrow> a = b"
  by (simp add: str_def inj_map_eq_map inj_on_def)

lemma str_Nil: "str [] = []"
  by (simp add: str_def)

lemma includes_str_iff: "includes_str s q \<longleftrightarrow> (\<exists>ps ss. s = ps @ q @ ss)"
proof (induction s)
  case Nil
  then show ?case by auto
next
  case (Cons c cs)
  have "(\<exists>ps ss. c # cs = ps @ q @ ss) \<longleftrightarrow> prefix q (c # cs) \<or> (\<exists>ps ss. cs = ps @ q @ ss)"
    by (auto simp: prefix_def Cons_eq_append_conv)
  with Cons show ?case by simp
qed

lemma all_dropWhile: "(\<forall>x\<in>set (dropWhile P xs). P x) \<longleftrightarrow> (\<forall>x\<in>set xs. P x)"
  by (induction xs) auto

lemma trim_empty_iff: "trim q = [] \<longleftrightarrow> list_all is_whitespace q"
  by (simp add: trim_def dropWhile_eq_Nil_conv all_dropWhile list_all_iff)

lemma trim_Nil: "trim [] = []"
  by (simp add: trim_def)

lemma fold_count_item:
  "fold count_item xs st =
     st\<lparr>positiveCount := positiveCount st + length (filter (\<lambda>item. gt_zero (data_rating item)) xs),
        negativeCount := negativeCount st + length (filter (\<lambda>item. lt_zero (data_rating item)) xs)\<rparr>"
proof (induction xs arbitrary: st)
  case Nil
  then show ?case by simp
next
  case (Cons x xs)
  have excl: "\<not> (gt_zero (data_rating x) \<and> lt_zero (data_rating x))"
    by (cases "data_rating x") auto
  have "fold count_item (x # xs) st = fold count_item xs (count_item x st)"
    by simp
  also have "\<dots> = (count_item x st)\<lparr>positiveCount := positiveCount (count_item x st)
        + length (filter (\<lambda>item. gt_zero (data_rating item)) xs),
      negativeCount := negativeCount (count_item x st)
        + length (filter (\<lambda>item. lt_zero (data_rating item)) xs)\<rparr>"
    by (rule Cons.IH)
  also have "\<dots> = st\<lparr>positiveCount := positiveCount st
        + length (filter (\<lambda>item. gt_zero (data_rating item)) (x # xs)),
      negativeCount := negativeCount st
        + length (filter (\<lambda>item. lt_zero (data_rating item)) (x # xs))\<rparr>"
    using excl by (simp add: count_item_def Let_def)
  finally show ?case .
qed

lemma processFeedbackData_eq:
  "processFeedbackData lc fd st =
     st\<lparr>originalFeedbacksData := fd,
        totalItems := length fd,
        positiveCount := length (filter (\<lambda>item. gt_zero (data_rating item)) fd),
        negativeCount := length (filter (\<lambda>item. lt_zero (data_rating item)) fd),
        activeFilter := str ''all'', searchQuery := [], parsedFeedbacksData := fd\<rparr>"
  by (simp add: processFeedbackData_def Let_def fold_count_item filterFeedbackItems_def
      trim_Nil truthy_def str_eq_iff str_Nil)

lemma parsed_filterFeedbackItems:
  "parsedFeedbacksData (filterFeedbackItems lc m q st) =
     filter (\<lambda>item. (m = str ''positive'' \<longrightarrow> gt_zero (data_rating item))
                  \<and> (m = str ''negative'' \<longrightarrow> lt_zero (data_rating item))
                  \<and> (truthy (trim q) \<longrightarrow> search_matches lc (lc q) item))
       (originalFeedbacksData st)"
  by (simp add: filterFeedbackItems_def Let_def str_eq_iff)

section \<open>Summary statistics\<close>

lemma gt_lt_exclusive: "\<not> (gt_zero r \<and> lt_zero r)"
  by (cases r) auto

lemma rating_partition:
  "length (filter (\<lambda>item. gt_zero (data_rating item)) xs)
   + length (filter (\<lambda>item. lt_zero (data_rating item)) xs)
   + length (filter (\<lambda>item. \<not> gt_zero (data_rating item) \<and> \<not> lt_zero (data_rating item)) xs)
   = length xs"
  using gt_lt_exclusive by (induction xs) auto

lemma stats_filterFeedbackItems:
  "totalItems (filterFeedbackItems lc m q st) = totalItems st
   \<and> positiveCount (filterFeedbackItems lc m q st) = positiveCount st
   \<and> negativeCount (filterFeedbackItems lc m q st) = negativeCount st
   \<and> originalFeedbacksData (filterFeedbackItems lc m q st) = originalFeedbacksData st"
  by (simp add: filterFeedbackItems_def Let_def)

text \<open>
  Claim C3. Processing a snapshot \<open>R\<close> sets \<open>totalItems\<close> to the number of records,
  \<open>positiveCount\<close> to the number of records with \<open>data.rating > 0\<close> and \<open>negativeCount\<close>
  to the number with \<open>data.rating < 0\<close>, counted over the whole of \<open>R\<close> whatever the state
  was before; a later filter call leaves the three numbers alone. Hence
  \<open>positiveCount + negativeCount \<le> totalItems\<close>, and equality forces that no record has
  rating exactly 0. For the three records rated 1, -1 and 0 the numbers are 3, 1 and 1.
\<close>

theorem processFeedbackData_summary:
  "totalItems (processFeedbackData lc R st) = length R
   \<and> positiveCount (processFeedbackData lc R st)
       = length (filter (\<lambda>item. gt_zero (data_rating item)) R)
   \<and> negativeCount (processFeedbackData lc R st)
       = length (filter (\<lambda>item. lt_zero (data_rating item)) R)
   \<and> totalItems (filterFeedbackItems lc m q (processFeedbackData lc R st)) = length R
   \<and> positiveCount (filterFeedbackItems lc m q (processFeedbackData lc R st))
       = length (filter (\<lambda>item. gt_zero (data_rating item)) R)
   \<and> negativeCount (filterFeedbackItems lc m q (processFeedbackData lc R st))
       = length (filter (\<lambda>item. lt_zero (data_rating item)) R)
   \<and> positiveCount (processFeedbackData lc R st) + negativeCount (processFeedbackData lc R st)
       \<le> totalItems (processFeedbackData lc R st)
   \<and> (positiveCount (processFeedbackData lc R st) + negativeCount (processFeedbackData lc R st)
        = totalItems (processFeedbackData lc R st)
       \<longrightarrow> list_all (\<lambda>item. data_rating item \<noteq> Some 0) R)
   \<and> totalItems (processFeedbackData lc [won, lost, draw] st) = 3
   \<and> positiveCount (processFeedbackData lc [won, lost, draw] st) = 1
   \<and> negativeCount (processFeedbackData lc [won, lost, draw] st) = 1"
proof -
  let ?P = "length (filter (\<lambda>item. gt_zero (data_rating item)) R)"
  let ?N = "length (filter (\<lambda>item. lt_zero (data_rating item)) R)"
  let ?Z = "filter (\<lambda>item. \<not> gt_zero (data_rating item) \<and> \<not> lt_zero (data_rating item)) R"
  have part: "?P + ?N + length ?Z = length R"
    by (rule rating_partition)
  have le: "?P + ?N \<le> length R"
    using part by linarith
  have only: "list_all (\<lambda>item. data_rating item \<noteq> Some 0) R" if "?P + ?N = length R"
  proof -
    from that part have "?Z = []" by simp
    then have "\<forall>item\<in>set R. gt_zero (data_rating item) \<or> lt_zero (data_rating item)"
      by (auto simp: filter_empty_conv)
    then show ?thesis
      by (auto simp: list_all_iff)
  qed
  have scen: "filter (\<lambda>item. gt_zero (data_rating item)) [won, lost, draw] = [won]
              \<and> filter (\<lambda>item. lt_zero (data_rating item)) [won, lost, draw] = [lost]"
    by (simp add: won_def lost_def draw_def example_feedback_def data_rating_def)
  show ?thesis
    using le only scen
    by (simp add: processFeedbackData_eq stats_filterFeedbackItems)
qed

text \<open>
  Two records, rated 1 and -1: the sum of the two counts is the total.
\<close>

theorem processFeedbackData_summary_witness:
  "positiveCount (processFeedbackData example_toLowerCase [won, lost] initial_state)
     + negativeCount (processFeedbackData example_toLowerCase [won, lost] initial_state)
     = totalItems (processFeedbackData example_toLowerCase [won, lost] initial_state)
   \<and> list_all (\<lambda>item. data_rating item \<noteq> Some 0) [won, lost]
   \<and> totalItems (processFeedbackData example_toLowerCase [won, lost] initial_state) = 2"
proof -
  have h: "positiveCount (processFeedbackData example_toLowerCase [won, lost] initial_state)
     + negativeCount (processFeedbackData example_toLowerCase [won, lost] initial_state)
     = totalItems (processFeedbackData example_toLowerCase [won, lost] initial_state)"
    by code_simp
  show ?thesis
    using h processFeedbackData_summary [of example_toLowerCase "[won, lost]" initial_state]
    by simp
qed

section \<open>Rating modes and search\<close>

lemma parsed_blank_query:
  "trim q = [] \<Longrightarrow>
     parsedFeedbacksData (filterFeedbackItems lc m q st) =
       filter (\<lambda>item. (m = str ''positive'' \<longrightarrow> gt_zero (data_rating item))
                    \<and> (m = str ''negative'' \<longrightarrow> lt_zero (data_rating item)))
         (originalFeedbacksData st)"
  by (simp add: parsed_filterFeedbackItems truthy_def)

lemma parsed_query_refines:
  "parsedFeedbacksData (filterFeedbackItems lc m q st) =
     filter (\<lambda>item. truthy (trim q) \<longrightarrow> search_matches lc (lc q) item)
       (parsedFeedbacksData (filterFeedbackItems lc m (str '''') st))"
  by (simp add: parsed_filterFeedbackItems trim_Nil truthy_def str_Nil
      conj_commute conj_left_commute)

text \<open>
  Claim C1, as the code has it. With a query that \<open>trim\<close> empties, that is an empty query
  or one made of white space only, mode \<open>positive\<close> returns exactly the records of the
  snapshot with \<open>data.rating > 0\<close>, mode \<open>negative\<close> exactly those with \<open>data.rating < 0\<close>,
  and mode \<open>all\<close> every record. For every mode and every query the output is a
  subsequence (so a subset) of the snapshot, every record shown under \<open>positive\<close> has a
  positive rating and every record shown under \<open>negative\<close> a negative one; a record rated
  exactly 0 is shown under neither.
\<close>

theorem filterFeedbackItems_rating_modes:
  "(trim q0 = [] \<longrightarrow>
      parsedFeedbacksData (filterFeedbackItems lc (str ''positive'') q0 st)
        = filter (\<lambda>item. gt_zero (data_rating item)) (originalFeedbacksData st)
      \<and> parsedFeedbacksData (filterFeedbackItems lc (str ''negative'') q0 st)
        = filter (\<lambda>item. lt_zero (data_rating item)) (originalFeedbacksData st)
      \<and> parsedFeedbacksData (filterFeedbackItems lc (str ''all'') q0 st)
        = originalFeedbacksData st)
   \<and> (trim q0 = []) = list_all is_whitespace q0
   \<and> subseq (parsedFeedbacksData (filterFeedbackItems lc m q st)) (originalFeedbacksData st)
   \<and> set (parsedFeedbacksData (filterFeedbackItems lc m q st))
       \<subseteq> set (originalFeedbacksData st)
   \<and> list_all (\<lambda>item. gt_zero (data_rating item))
        (parsedFeedbacksData (filterFeedbackItems lc (str ''positive'') q st))
   \<and> list_all (\<lambda>item. lt_zero (data_rating item))
        (parsedFeedbacksData (filterFeedbackItems lc (str ''negative'') q st))
   \<and> (data_rating item = Some 0 \<longrightarrow>
        item \<notin> set (parsedFeedbacksData (filterFeedbackItems lc (str ''positive'') q st))
        \<and> item \<notin> set (parsedFeedbacksData (filterFeedbackItems lc (str ''negative'') q st)))"
proof -
  have blank: "trim q0 = [] \<Longrightarrow>
      parsedFeedbacksData (filterFeedbackItems lc (str ''positive'') q0 st)
        = filter (\<lambda>item. gt_zero (data_rating item)) (originalFeedbacksData st)
      \<and> parsedFeedbacksData (filterFeedbackItems lc (str ''negative'') q0 st)
        = filter (\<lambda>item. lt_zero (data_rating item)) (originalFeedbacksData st)
      \<and> parsedFeedbacksData (filterFeedbackItems lc (str ''all'') q0 st)
        = originalFeedbacksData st"
    by (simp add: parsed_blank_query str_eq_iff)
  have ws: "(trim q0 = []) = list_all is_whitespace q0"
    by (rule trim_empty_iff)
  have sub: "subseq (parsedFeedbacksData (filterFeedbackItems lc m q st))
      (originalFeedbacksData st)"
    by (simp add: parsed_filterFeedbackItems)
  have subset: "set (parsedFeedbacksData (filterFeedbackItems lc m q st))
      \<subseteq> set (originalFeedbacksData st)"
    by (simp add: parsed_filterFeedbackItems)
  have pos: "list_all (\<lambda>item. gt_zero (data_rating item))
        (parsedFeedbacksData (filterFeedbackItems lc (str ''positive'') q st))"
    by (simp add: parsed_filterFeedbackItems list_all_iff)
  have neg: "list_all (\<lambda>item. lt_zero (data_rating item))
        (parsedFeedbacksData (filterFeedbackItems lc (str ''negative'') q st))"
    by (simp add: parsed_filterFeedbackItems list_all_iff)
  have zero: "data_rating item = Some 0 \<Longrightarrow>
        item \<notin> set (parsedFeedbacksData (filterFeedbackItems lc (str ''positive'') q st))
        \<and> item \<notin> set (parsedFeedbacksData (filterFeedbackItems lc (str ''negative'') q st))"
    by (simp add: parsed_filterFeedbackItems)
  from blank ws sub subset pos neg zero show ?thesis
    by blast
qed

text \<open>
  The three records rated 1, -1 and 0 under each mode, with a query made of a space, a
  no-break space and an ideographic space.
\<close>

theorem filterFeedbackItems_rating_modes_witness:
  "trim [0x20, 0xA0, 0x3000] = []
   \<and> parsedFeedbacksData
        (filterFeedbackItems example_toLowerCase (str ''positive'') [0x20, 0xA0, 0x3000] analysed)
       = [won]
   \<and> parsedFeedbacksData
        (filterFeedbackItems example_toLowerCase (str ''negative'') [0x20, 0xA0, 0x3000] analysed)
       = [lost]
   \<and> parsedFeedbacksData
        (filterFeedbackItems example_toLowerCase (str ''all'') [0x20, 0xA0, 0x3000] analysed)
       = [won, lost, draw]
   \<and> data_rating draw = Some 0
   \<and> draw \<notin> set (parsedFeedbacksData
        (filterFeedbackItems example_toLowerCase (str ''positive'') (str ''zzz'') analysed))
   \<and> draw \<notin> set (parsedFeedbacksData
        (filterFeedbackItems example_toLowerCase (str ''negative'') (str ''zzz'') analysed))"
proof -
  have h1: "trim [0x20, 0xA0, 0x3000] = []"
    by code_simp
  have h2: "data_rating draw = Some 0"
    by (simp add: draw_def example_feedback_def data_rating_def)
  have orig: "originalFeedbacksData analysed = [won, lost, draw]"
    by (simp add: analysed_def processFeedbackData_eq)
  have pos: "filter (\<lambda>item. gt_zero (data_rating item)) [won, lost, draw] = [won]"
    by (simp add: won_def lost_def draw_def example_feedback_def data_rating_def)
  have neg: "filter (\<lambda>item. lt_zero (data_rating item)) [won, lost, draw] = [lost]"
    by (simp add: won_def lost_def draw_def example_feedback_def data_rating_def)
  show ?thesis
    using h1 h2 orig pos neg
      filterFeedbackItems_rating_modes [of "[0x20, 0xA0, 0x3000]" example_toLowerCase analysed
        "str ''positive''" "str ''zzz''" draw]
    by simp
qed

text \<open>
  Claim C1 as stated quantifies over every query. With the query \<open>zzz\<close> the record rated 1
  belongs to the snapshot, has a positive rating, and is not returned under \<open>positive\<close>:
  the search narrows the mode-filtered set.
\<close>

theorem positive_mode_any_query_counterexample:
  "won \<in> set (originalFeedbacksData analysed)
   \<and> gt_zero (data_rating won)
   \<and> won \<notin> set (parsedFeedbacksData
        (filterFeedbackItems example_toLowerCase (str ''positive'') (str ''zzz'') analysed))"
  by code_simp

lemma msg_exact: "message_matches lc lq mm \<longleftrightarrow>
      (\<exists>c ps ss. content mm = Some c \<and> c \<noteq> [] \<and> lc c = ps @ lq @ ss)"
  by (cases "content mm") (simp_all add: message_matches_def truthy_def includes_str_iff)

lemma ttl_exact: "(case snapshot_title item of None \<Rightarrow> False
              | Some t \<Rightarrow> truthy t \<and> includes_str (lc t) lq)
      \<longleftrightarrow> (\<exists>t ps ss. snapshot_title item = Some t \<and> t \<noteq> [] \<and> lc t = ps @ lq @ ss)"
  by (cases "snapshot_title item") (simp_all add: truthy_def includes_str_iff)

lemma msgs_exact: "(case snapshot_messages item of
                 Some ms \<Rightarrow> list_ex (message_matches lc lq) ms
               | None \<Rightarrow> False)
      \<longleftrightarrow> (\<exists>ms mm. snapshot_messages item = Some ms \<and> mm \<in> set ms
            \<and> (\<exists>c ps ss. content mm = Some c \<and> c \<noteq> [] \<and> lc c = ps @ lq @ ss))"
  by (cases "snapshot_messages item") (simp_all add: list_ex_iff msg_exact Bex_def)

lemma if_True_else: "(if A then True else B) = (A \<or> B)"
  by simp

lemma search_matches_exact:
  "search_matches lc lq item \<longleftrightarrow>
     (\<exists>t ps ss. snapshot_title item = Some t \<and> t \<noteq> [] \<and> lc t = ps @ lq @ ss)
     \<or> (\<exists>ms mm. snapshot_messages item = Some ms \<and> mm \<in> set ms
            \<and> (\<exists>c ps ss. content mm = Some c \<and> c \<noteq> [] \<and> lc c = ps @ lq @ ss))"
  unfolding search_matches_def ttl_exact msgs_exact if_True_else by (rule refl)

lemma sandwich_nonempty:
  assumes "\<forall>s. (lc s = []) = (s = [])" and "q \<noteq> []"
  shows "(s \<noteq> [] \<and> lc s = ps @ lc q @ ss) \<longleftrightarrow> lc s = ps @ lc q @ ss"
proof -
  from assms have "lc q \<noteq> []" by simp
  then have "lc s = ps @ lc q @ ss \<Longrightarrow> lc s \<noteq> []" by simp
  with assms(1) show ?thesis by blast
qed

lemma search_matches_claim:
  assumes "\<forall>s. (lc s = []) = (s = [])" and "q \<noteq> []"
  shows "search_matches lc (lc q) item \<longleftrightarrow>
     (\<exists>t ps ss. snapshot_title item = Some t \<and> lc t = ps @ lc q @ ss)
     \<or> (\<exists>ms mm. snapshot_messages item = Some ms \<and> mm \<in> set ms
            \<and> (\<exists>c ps ss. content mm = Some c \<and> lc c = ps @ lc q @ ss))"
  unfolding search_matches_exact sandwich_nonempty [OF assms] by (rule refl)

text \<open>
  Claim C2. For a query that \<open>trim\<close> does not empty, a record passes the search exactly
  when its transcript title is not empty and the lowercased query is a contiguous
  substring of the lowercased title, or some message of its snapshot has a content that
  is not empty and contains the lowercased query once lowercased (the query is
  lowercased as typed, without trimming). Since \<open>toLowerCase\<close> maps the empty string, and
  only it, to the empty string, this is the claim as stated: the lowercased query is a
  substring of the lowercased title or of the lowercased content of at least one
  message. A query that \<open>trim\<close> empties, that is an empty query or one made of white space
  only, lets every record of the mode-filtered set pass. All this holds whatever the case
  mapping is.
\<close>

theorem search_query_matching:
  "(trim q \<noteq> [] \<longrightarrow>
      (item \<in> set (parsedFeedbacksData (filterFeedbackItems lc m q st)) \<longleftrightarrow>
         item \<in> set (parsedFeedbacksData (filterFeedbackItems lc m (str '''') st))
         \<and> ((\<exists>t ps ss. snapshot_title item = Some t \<and> t \<noteq> []
                \<and> lc t = ps @ lc q @ ss)
            \<or> (\<exists>ms mm. snapshot_messages item = Some ms \<and> mm \<in> set ms
                \<and> (\<exists>c ps ss. content mm = Some c \<and> c \<noteq> []
                      \<and> lc c = ps @ lc q @ ss)))))
   \<and> ((\<forall>s. (lc s = []) = (s = [])) \<and> trim q \<noteq> [] \<longrightarrow>
      (item \<in> set (parsedFeedbacksData (filterFeedbackItems lc m q st)) \<longleftrightarrow>
         item \<in> set (parsedFeedbacksData (filterFeedbackItems lc m (str '''') st))
         \<and> ((\<exists>t ps ss. snapshot_title item = Some t \<and> lc t = ps @ lc q @ ss)
            \<or> (\<exists>ms mm. snapshot_messages item = Some ms \<and> mm \<in> set ms
                \<and> (\<exists>c ps ss. content mm = Some c \<and> lc c = ps @ lc q @ ss)))))
   \<and> (trim q = [] \<longrightarrow>
        parsedFeedbacksData (filterFeedbackItems lc m q st)
          = parsedFeedbacksData (filterFeedbackItems lc m (str '''') st))
   \<and> (trim q = []) = list_all is_whitespace q"
proof -
  have blank: "parsedFeedbacksData (filterFeedbackItems lc m q st)
      = parsedFeedbacksData (filterFeedbackItems lc m (str '''') st)" if "trim q = []"
    using that by (simp add: parsed_query_refines [of lc m q] truthy_def)
  have mem: "item \<in> set (parsedFeedbacksData (filterFeedbackItems lc m q st)) \<longleftrightarrow>
         item \<in> set (parsedFeedbacksData (filterFeedbackItems lc m (str '''') st))
         \<and> search_matches lc (lc q) item" if "trim q \<noteq> []"
    using that by (simp add: parsed_query_refines [of lc m q] truthy_def)
  have exact: "item \<in> set (parsedFeedbacksData (filterFeedbackItems lc m q st)) \<longleftrightarrow>
         item \<in> set (parsedFeedbacksData (filterFeedbackItems lc m (str '''') st))
         \<and> ((\<exists>t ps ss. snapshot_title item = Some t \<and> t \<noteq> []
                \<and> lc t = ps @ lc q @ ss)
            \<or> (\<exists>ms mm. snapshot_messages item = Some ms \<and> mm \<in> set ms
                \<and> (\<exists>c ps ss. content mm = Some c \<and> c \<noteq> []
                      \<and> lc c = ps @ lc q @ ss)))"
    if "trim q \<noteq> []"
    unfolding mem [OF that] search_matches_exact by (rule refl)
  have claim: "item \<in> set (parsedFeedbacksData (filterFeedbackItems lc m q st)) \<longleftrightarrow>
         item \<in> set (parsedFeedbacksData (filterFeedbackItems lc m (str '''') st))
         \<and> ((\<exists>t ps ss. snapshot_title item = Some t \<and> lc t = ps @ lc q @ ss)
            \<or> (\<exists>ms mm. snapshot_messages item = Some ms \<and> mm \<in> set ms
                \<and> (\<exists>c ps ss. content mm = Some c \<and> lc c = ps @ lc q @ ss)))"
    if lc: "\<forall>s. (lc s = []) = (s = [])" and q: "trim q \<noteq> []"
  proof -
    from q have "q \<noteq> []"
      by (auto simp: trim_Nil)
    from search_matches_claim [OF lc this] show ?thesis
      unfolding mem [OF q] by (rule arg_cong)
  qed
  have ws: "(trim q = []) = list_all is_whitespace q"
    by (rule trim_empty_iff)
  show ?thesis
    by (intro conjI impI; (elim conjE)?; (rule exact claim blank ws; assumption?))
qed

text \<open>
  The query \<open>hello\<close> finds the record titled \<open>Hello World\<close> and the record with the
  message \<open>say hello there\<close>, and not the record without a snapshot; a query that
  starts with the small letter U+00E9 finds the title that starts with the capital
  U+00C9; a query of a no-break space and a tab changes nothing.
\<close>

theorem search_query_matching_witness:
  "(\<forall>s. (example_toLowerCase s = []) = (s = []))
   \<and> trim (str ''hello'') \<noteq> []
   \<and> titled \<in> set (parsedFeedbacksData
        (filterFeedbackItems example_toLowerCase (str ''all'') (str ''hello'') analysed_transcripts))
   \<and> messaged \<in> set (parsedFeedbacksData
        (filterFeedbackItems example_toLowerCase (str ''all'') (str ''hello'') analysed_transcripts))
   \<and> won \<notin> set (parsedFeedbacksData
        (filterFeedbackItems example_toLowerCase (str ''all'') (str ''hello'') analysed_transcripts))
   \<and> trim (0xE9 # str ''cole'') \<noteq> []
   \<and> accented \<in> set (parsedFeedbacksData
        (filterFeedbackItems example_toLowerCase (str ''all'') (0xE9 # str ''cole'')
           analysed_transcripts))
   \<and> trim [0xA0, 0x09] = []
   \<and> parsedFeedbacksData
        (filterFeedbackItems example_toLowerCase (str ''all'') [0xA0, 0x09] analysed_transcripts)
       = parsedFeedbacksData
        (filterFeedbackItems example_toLowerCase (str ''all'') (str '''') analysed_transcripts)"
proof -
  note T = search_query_matching [where lc = example_toLowerCase and m = "str ''all''"
      and st = analysed_transcripts]
  have lc: "\<forall>s. (example_toLowerCase s = []) = (s = [])"
    by (simp add: example_toLowerCase_def)
  have h1: "trim (str ''hello'') \<noteq> []"
    by code_simp
  have h2: "trim [0xA0, 0x09] = []"
    by code_simp
  note Q = T [where q = "str ''hello''"]
  have mem: "titled \<in> set (parsedFeedbacksData
      (filterFeedbackItems example_toLowerCase (str ''all'') (str '''') analysed_transcripts))"
    by code_simp
  have ttl: "snapshot_title titled = Some (str ''Hello World'')"
    by code_simp
  have low: "example_toLowerCase (str ''Hello World'')
      = [] @ example_toLowerCase (str ''hello'') @ str '' world''"
    by code_simp
  have rhs: "\<exists>t ps ss. snapshot_title titled = Some t
      \<and> example_toLowerCase t = ps @ example_toLowerCase (str ''hello'') @ ss"
    using ttl low by blast
  have a: "titled \<in> set (parsedFeedbacksData
      (filterFeedbackItems example_toLowerCase (str ''all'') (str ''hello'') analysed_transcripts))"
    using Q [where item = titled, THEN conjunct2, THEN conjunct1, THEN mp,
        OF conjI, OF lc h1] mem rhs by blast
  have mem2: "messaged \<in> set (parsedFeedbacksData
      (filterFeedbackItems example_toLowerCase (str ''all'') (str '''') analysed_transcripts))"
    by code_simp
  have msgs: "snapshot_messages messaged = Some [example_message ''user'' ''say hello there'']"
    by code_simp
  have cnt: "content (example_message ''user'' ''say hello there'')
      = Some (str ''say hello there'')"
    by code_simp
  have low2: "example_toLowerCase (str ''say hello there'')
      = str ''say '' @ example_toLowerCase (str ''hello'') @ str '' there''"
    by code_simp
  have rhs2: "\<exists>ms mm. snapshot_messages messaged = Some ms \<and> mm \<in> set ms
      \<and> (\<exists>c ps ss. content mm = Some c
            \<and> example_toLowerCase c = ps @ example_toLowerCase (str ''hello'') @ ss)"
    using msgs cnt low2 by (metis list.set_intros(1))
  have a2: "messaged \<in> set (parsedFeedbacksData
      (filterFeedbackItems example_toLowerCase (str ''all'') (str ''hello'') analysed_transcripts))"
    using Q [where item = messaged, THEN conjunct2, THEN conjunct1, THEN mp,
        OF conjI, OF lc h1] mem2 rhs2 by blast
  have no_title: "snapshot_title won = None"
    by code_simp
  have no_msgs: "snapshot_messages won = None"
    by code_simp
  have a3: "won \<notin> set (parsedFeedbacksData
      (filterFeedbackItems example_toLowerCase (str ''all'') (str ''hello'') analysed_transcripts))"
    using Q [where item = won, THEN conjunct2, THEN conjunct1, THEN mp,
        OF conjI, OF lc h1] no_title no_msgs by simp
  have b: "parsedFeedbacksData
        (filterFeedbackItems example_toLowerCase (str ''all'') [0xA0, 0x09] analysed_transcripts)
       = parsedFeedbacksData
        (filterFeedbackItems example_toLowerCase (str ''all'') (str '''') analysed_transcripts)"
    using T [where q = "[0xA0, 0x09]" and item = won, THEN conjunct2, THEN conjunct2,
        THEN conjunct1] h2 by (rule mp)
  have h3: "trim (0xE9 # str ''cole'') \<noteq> []"
    by code_simp
  have mem3: "accented \<in> set (parsedFeedbacksData
      (filterFeedbackItems example_toLowerCase (str ''all'') (str '''') analysed_transcripts))"
    by code_simp
  have ttl3: "snapshot_title accented = Some (0xC9 # str ''COLE'')"
    by code_simp
  have low3: "example_toLowerCase (0xC9 # str ''COLE'')
      = [] @ example_toLowerCase (0xE9 # str ''cole'') @ []"
    by code_simp
  have rhs3: "\<exists>t ps ss. snapshot_title accented = Some t
      \<and> example_toLowerCase t = ps @ example_toLowerCase (0xE9 # str ''cole'') @ ss"
    using ttl3 low3 by blast
  have a4: "accented \<in> set (parsedFeedbacksData
      (filterFeedbackItems example_toLowerCase (str ''all'') (0xE9 # str ''cole'')
         analysed_transcripts))"
    using T [where q = "0xE9 # str ''cole''" and item = accented, THEN conjunct2,
        THEN conjunct1, THEN mp, OF conjI, OF lc h3] mem3 rhs3 by blast
  from lc h1 a a2 a3 h3 a4 h2 b show ?thesis
    by (intro conjI) (elim conjE | assumption)+
qed

text \<open>
  Claim C4. For every snapshot, mode and query, the result of filtering with the query
  is a subset (indeed a subsequence) of the result of filtering with the same mode and
  the empty query. Filtering never touches the original snapshot, and the result of a
  filter call does not depend on the filter that was applied before it.
\<close>

theorem search_narrows:
  "set (parsedFeedbacksData (filterFeedbackItems lc m q st))
     \<subseteq> set (parsedFeedbacksData (filterFeedbackItems lc m (str '''') st))
   \<and> subseq (parsedFeedbacksData (filterFeedbackItems lc m q st))
       (parsedFeedbacksData (filterFeedbackItems lc m (str '''') st))
   \<and> originalFeedbacksData (filterFeedbackItems lc m q st) = originalFeedbacksData st
   \<and> parsedFeedbacksData (filterFeedbackItems lc m q (filterFeedbackItems lc m' q' st))
       = parsedFeedbacksData (filterFeedbackItems lc m q st)"
proof -
  have keep: "originalFeedbacksData (filterFeedbackItems lc m'' q'' st) = originalFeedbacksData st"
    for m'' q''
    by (simp add: stats_filterFeedbackItems)
  have "parsedFeedbacksData (filterFeedbackItems lc m q (filterFeedbackItems lc m' q' st))
       = parsedFeedbacksData (filterFeedbackItems lc m q st)"
    by (simp add: parsed_filterFeedbackItems keep)
  moreover have "subseq (parsedFeedbacksData (filterFeedbackItems lc m q st))
       (parsedFeedbacksData (filterFeedbackItems lc m (str '''') st))"
    by (subst parsed_query_refines) simp
  moreover have "set (parsedFeedbacksData (filterFeedbackItems lc m q st))
     \<subseteq> set (parsedFeedbacksData (filterFeedbackItems lc m (str '''') st))"
    by (subst parsed_query_refines) auto
  ultimately show ?thesis
    using keep by blast
qed

text \<open>
  Mode \<open>negative\<close> after an unrelated filter call gives the same records as on the fresh
  snapshot.
\<close>

theorem search_narrows_witness:
  "parsedFeedbacksData (filterFeedbackItems example_toLowerCase (str ''negative'') (str ''hello'')
        analysed_transcripts) = [messaged]
   \<and> parsedFeedbacksData (filterFeedbackItems example_toLowerCase (str ''negative'') (str '''')
        (filterFeedbackItems example_toLowerCase (str ''positive'') (str ''zzz'')
           analysed_transcripts)) = [messaged]"
proof -
  have a: "parsedFeedbacksData (filterFeedbackItems example_toLowerCase (str ''negative'')
      (str ''hello'') analysed_transcripts) = [messaged]"
    by code_simp
  have b: "parsedFeedbacksData (filterFeedbackItems example_toLowerCase (str ''negative'')
      (str '''') analysed_transcripts) = [messaged]"
    by code_simp
  show ?thesis
    using a b search_narrows [of example_toLowerCase "str ''negative''" "str ''''"
        analysed_transcripts "str ''positive''" "str ''zzz''"]
    by simp
qed

section \<open>Refresh and toggle\<close>

text \<open>
  Claim C5, as the code has it. After a successful refresh the analysis snapshot is the
  newly fetched export, the three summary numbers are recomputed over it, and the
  filter is reset: the active mode becomes \<open>all\<close>, the query becomes empty, and the
  displayed set is the whole new snapshot. The table's record list and the panel's
  visibility are unchanged.
\<close>

theorem refresh_replaces_and_resets:
  "originalFeedbacksData (refreshFeedbacksAnalysis lc (Resolved (Some fresh)) st) = fresh
   \<and> totalItems (refreshFeedbacksAnalysis lc (Resolved (Some fresh)) st) = length fresh
   \<and> positiveCount (refreshFeedbacksAnalysis lc (Resolved (Some fresh)) st)
       = length (filter (\<lambda>item. gt_zero (data_rating item)) fresh)
   \<and> negativeCount (refreshFeedbacksAnalysis lc (Resolved (Some fresh)) st)
       = length (filter (\<lambda>item. lt_zero (data_rating item)) fresh)
   \<and> activeFilter (refreshFeedbacksAnalysis lc (Resolved (Some fresh)) st) = str ''all''
   \<and> searchQuery (refreshFeedbacksAnalysis lc (Resolved (Some fresh)) st) = []
   \<and> parsedFeedbacksData (refreshFeedbacksAnalysis lc (Resolved (Some fresh)) st) = fresh
   \<and> feedbacks (refreshFeedbacksAnalysis lc (Resolved (Some fresh)) st) = feedbacks st
   \<and> showFeedbackAnalysis (refreshFeedbacksAnalysis lc (Resolved (Some fresh)) st)
       = showFeedbackAnalysis st"
  by (simp add: refreshFeedbacksAnalysis_def Let_def processFeedbackData_eq)

text \<open>
  A refresh of the panel that showed only positive records.
\<close>

theorem refresh_replaces_and_resets_witness:
  "originalFeedbacksData
     (refreshFeedbacksAnalysis example_toLowerCase (Resolved (Some [lost, draw])) positive_view)
     = [lost, draw]
   \<and> positiveCount
     (refreshFeedbacksAnalysis example_toLowerCase (Resolved (Some [lost, draw])) positive_view) = 0
   \<and> negativeCount
     (refreshFeedbacksAnalysis example_toLowerCase (Resolved (Some [lost, draw])) positive_view) = 1
   \<and> parsedFeedbacksData
     (refreshFeedbacksAnalysis example_toLowerCase (Resolved (Some [lost, draw])) positive_view)
     = [lost, draw]"
proof -
  have "filter (\<lambda>item. gt_zero (data_rating item)) [lost, draw] = []
        \<and> filter (\<lambda>item. lt_zero (data_rating item)) [lost, draw] = [lost]"
    by (simp add: lost_def draw_def example_feedback_def data_rating_def)
  then show ?thesis
    using refresh_replaces_and_resets [of example_toLowerCase "[lost, draw]" positive_view]
    by simp
qed

text \<open>
  Claim C5 as stated says that the mode and query active before the refresh stay and are
  applied again. Here the panel shows only positive records; after a successful refresh
  the active mode is \<open>all\<close> and all three records are displayed, where applying
  \<open>positive\<close> again would display one.
\<close>

theorem refresh_keeps_filter_counterexample:
  "activeFilter positive_view = str ''positive''
   \<and> parsedFeedbacksData positive_view = [won]
   \<and> activeFilter
       (refreshFeedbacksAnalysis example_toLowerCase (Resolved (Some [won, lost, draw]))
          positive_view)
       = str ''all''
   \<and> parsedFeedbacksData
       (refreshFeedbacksAnalysis example_toLowerCase (Resolved (Some [won, lost, draw]))
          positive_view)
       = [won, lost, draw]
   \<and> parsedFeedbacksData (filterFeedbackItems example_toLowerCase (str ''positive'') (str '''')
        (refreshFeedbacksAnalysis example_toLowerCase (Resolved (Some [won, lost, draw]))
           positive_view))
       = [won]"
  by code_simp

text \<open>
  Claim C6, as the code has it. The toggle flips the panel's visibility. Going from
  visible to hidden changes nothing else. Going from hidden to visible changes nothing
  else when the displayed (filtered) list is not empty, and otherwise processes the
  table's current record list afresh: the guard reads the displayed list, not the stored
  snapshot.
\<close>

theorem toggleFeedbackAnalysis_transitions:
  "showFeedbackAnalysis (toggleFeedbackAnalysis lc st) = (\<not> showFeedbackAnalysis st)
   \<and> (showFeedbackAnalysis st \<longrightarrow>
        toggleFeedbackAnalysis lc st = st\<lparr>showFeedbackAnalysis := False\<rparr>)
   \<and> (\<not> showFeedbackAnalysis st \<and> parsedFeedbacksData st \<noteq> [] \<longrightarrow>
        toggleFeedbackAnalysis lc st = st\<lparr>showFeedbackAnalysis := True\<rparr>)
   \<and> (\<not> showFeedbackAnalysis st \<and> parsedFeedbacksData st = [] \<longrightarrow>
        toggleFeedbackAnalysis lc st
          = processFeedbackData lc (feedbacks st) (st\<lparr>showFeedbackAnalysis := True\<rparr>))"
  by (simp add: toggleFeedbackAnalysis_def Let_def processFeedbackData_eq)

text \<open>
  The three transitions on a table of two records.
\<close>

theorem toggleFeedbackAnalysis_transitions_witness:
  "showFeedbackAnalysis panel_open
   \<and> toggleFeedbackAnalysis example_toLowerCase panel_open
       = panel_open\<lparr>showFeedbackAnalysis := False\<rparr>
   \<and> \<not> showFeedbackAnalysis panel_closed
   \<and> parsedFeedbacksData panel_closed \<noteq> []
   \<and> toggleFeedbackAnalysis example_toLowerCase panel_closed
       = panel_closed\<lparr>showFeedbackAnalysis := True\<rparr>
   \<and> \<not> showFeedbackAnalysis loaded_table
   \<and> parsedFeedbacksData loaded_table = []
   \<and> toggleFeedbackAnalysis example_toLowerCase loaded_table
       = processFeedbackData example_toLowerCase (feedbacks loaded_table)
           (loaded_table\<lparr>showFeedbackAnalysis := True\<rparr>)"
proof -
  have a: "showFeedbackAnalysis panel_open"
    by code_simp
  have b: "\<not> showFeedbackAnalysis panel_closed \<and> parsedFeedbacksData panel_closed \<noteq> []"
    by code_simp
  have c: "\<not> showFeedbackAnalysis loaded_table \<and> parsedFeedbacksData loaded_table = []"
    by code_simp
  show ?thesis
    using a b c toggleFeedbackAnalysis_transitions [of example_toLowerCase panel_open]
      toggleFeedbackAnalysis_transitions [of example_toLowerCase panel_closed]
      toggleFeedbackAnalysis_transitions [of example_toLowerCase loaded_table]
    by blast
qed

text \<open>
  Claim C6 as stated says that a toggle with a snapshot that is not empty does not process
  again. Here the panel is hidden, the snapshot holds two records, and a search that found
  nothing left the displayed list empty: showing the panel replaces the snapshot by the
  table's present list of one record and resets mode and query.
\<close>

theorem toggle_reprocesses_nonempty_snapshot_counterexample:
  "\<not> showFeedbackAnalysis hidden_empty_view
   \<and> originalFeedbacksData hidden_empty_view = [won, lost]
   \<and> activeFilter hidden_empty_view = str ''positive''
   \<and> searchQuery hidden_empty_view = str ''zzz''
   \<and> originalFeedbacksData (toggleFeedbackAnalysis example_toLowerCase hidden_empty_view) = [won]
   \<and> totalItems (toggleFeedbackAnalysis example_toLowerCase hidden_empty_view) = 1
   \<and> activeFilter (toggleFeedbackAnalysis example_toLowerCase hidden_empty_view) = str ''all''
   \<and> searchQuery (toggleFeedbackAnalysis example_toLowerCase hidden_empty_view) = []"
  by code_simp

section \<open>Delete and share\<close>

lemma length_filter_other_ids:
  "distinct (map g xs) \<Longrightarrow> i \<in> set (map g xs) \<Longrightarrow>
     length (filter (\<lambda>x. g x \<noteq> i) xs) + 1 = length xs"
proof (induction xs)
  case Nil
  then show ?case by simp
next
  case (Cons x xs)
  show ?case
  proof (cases "g x = i")
    case True
    with Cons.prems have "\<forall>y\<in>set xs. g y \<noteq> i"
      by (auto simp: image_iff)
    then have "filter (\<lambda>y. g y \<noteq> i) xs = xs"
      by (simp add: filter_id_conv)
    with True show ?thesis by simp
  next
    case False
    with Cons show ?thesis by auto
  qed
qed

text \<open>
  Claim C7. When the external deletion call fails (the promise rejects), the state is
  unchanged but for the error toast shown to the user; in particular the record list is
  unchanged, whatever the id. When it succeeds, the record list keeps exactly the records
  with another id, in order and unchanged; with unique ids and the id present, exactly
  one record is gone. (A call that resolves with a falsy response changes nothing.)
\<close>

theorem deleteFeedbackHandler_local_state:
  "deleteFeedbackHandler i (Rejected err) st = st\<lparr>toasts := toasts st @ [ToastError err]\<rparr>
   \<and> feedbacks (deleteFeedbackHandler i (Rejected err) st) = feedbacks st
   \<and> deleteFeedbackHandler i (Resolved False) st = st
   \<and> feedbacks (deleteFeedbackHandler i (Resolved True) st)
       = filter (\<lambda>f. id_fb f \<noteq> i) (feedbacks st)
   \<and> (f \<in> set (feedbacks (deleteFeedbackHandler i (Resolved True) st))
        \<longleftrightarrow> f \<in> set (feedbacks st) \<and> id_fb f \<noteq> i)
   \<and> (distinct (map id_fb (feedbacks st)) \<and> i \<in> set (map id_fb (feedbacks st)) \<longrightarrow>
        length (feedbacks (deleteFeedbackHandler i (Resolved True) st)) + 1
          = length (feedbacks st))
   \<and> deleteFeedbackHandler i (Resolved True) st
       = st\<lparr>feedbacks := filter (\<lambda>f. id_fb f \<noteq> i) (feedbacks st)\<rparr>"
proof -
  have len: "distinct (map id_fb (feedbacks st)) \<and> i \<in> set (map id_fb (feedbacks st)) \<longrightarrow>
      length (filter (\<lambda>f. id_fb f \<noteq> i) (feedbacks st)) + 1 = length (feedbacks st)"
    using length_filter_other_ids [of id_fb "feedbacks st" i] by blast
  show ?thesis
    using len by (simp add: deleteFeedbackHandler_def)
qed

text \<open>
  Deleting the second of two records, and a failed deletion of an id that is not there.
\<close>

theorem deleteFeedbackHandler_local_state_witness:
  "distinct (map id_fb (feedbacks panel_open))
   \<and> str ''b'' \<in> set (map id_fb (feedbacks panel_open))
   \<and> feedbacks (deleteFeedbackHandler (str ''b'') (Resolved True) panel_open) = [won]
   \<and> length (feedbacks (deleteFeedbackHandler (str ''b'') (Resolved True) panel_open)) + 1
       = length (feedbacks panel_open)
   \<and> feedbacks (deleteFeedbackHandler (str ''nobody'') (Rejected (str ''network'')) panel_open)
       = [won, lost]
   \<and> toasts (deleteFeedbackHandler (str ''nobody'') (Rejected (str ''network'')) panel_open)
       = [ToastError (str ''network'')]"
proof -
  have h: "distinct (map id_fb (feedbacks panel_open))
      \<and> str ''b'' \<in> set (map id_fb (feedbacks panel_open))"
    by code_simp
  have fs: "feedbacks panel_open = [won, lost]"
    by code_simp
  have ts: "toasts panel_open = []"
    by code_simp
  have flt: "filter (\<lambda>f. id_fb f \<noteq> str ''b'') [won, lost] = [won]"
    by (simp add: won_def lost_def example_feedback_def str_eq_iff)
  show ?thesis
    using h fs ts flt
      deleteFeedbackHandler_local_state [of "str ''b''" "str ''network''" panel_open won]
      deleteFeedbackHandler_local_state [of "str ''nobody''" "str ''network''" panel_open won]
    by simp
qed










section \<open>Formatting a conversation\<close>

lemma hasFeedback_iff:
  "hasFeedback m \<longleftrightarrow>
     (\<exists>a. annotation m = Some a \<and> a \<noteq> []) \<or> (\<exists>i. feedbackId m = Some i \<and> i \<noteq> [])"
  by (cases "annotation m"; cases "feedbackId m") (simp_all add: hasFeedback_def truthy_def)

lemma displayContent_eq:
  "displayContent m
     = (case content m of None \<Rightarrow> [] | Some c \<Rightarrow> c)
       @ (case error m of
            None \<Rightarrow> []
          | Some e \<Rightarrow>
              (case error_content e of
                 None \<Rightarrow> []
               | Some t \<Rightarrow>
                   if t = [] then []
                   else str ''<div class=\"text-red-500 dark:text-red-400 text-xs mt-1\">''
                        @ t @ str ''</div>''))"
  by (simp add: displayContent_def Let_def truthy_def error_text_def error_block_def
      split: option.splits)

lemma renderMessage_eq:
  "renderMessage m =
     line_break 4 @ str ''<div class=\"''
     @ (if role m = str ''user'' then str ''bg-gray-50 dark:bg-gray-800 p-3 rounded-lg mb-2''
        else str ''bg-gray-100 dark:bg-gray-700 p-3 rounded-lg mb-2'')
     @ str '' ''
     @ (if hasFeedback m then str ''border-2 border-red-500 dark:border-red-400'' else [])
     @ str ''\">''
     @ line_break 5 @ str ''<div class=\"font-medium text-gray-700 dark:text-gray-300\">''
     @ (if role m = str ''user'' then str ''User'' else str ''Assistant'')
     @ str ''</div>''
     @ line_break 5 @ str ''<div class=\"text-sm mt-1 text-gray-600 dark:text-gray-300\">''
     @ displayContent m
     @ str ''</div>''
     @ line_break 5
     @ (if hasFeedback m then feedback_marker else [])
     @ line_break 4 @ str ''</div>''
     @ line_break 3"
  by (simp add: renderMessage_def message_template_def className_def isUser_def
      feedbackHighlight_def speaker_def feedbackMarker_def)

lemma renderMessage_around_content:
  "\<exists>ps ss. renderMessage m = ps @ displayContent m @ ss"
proof -
  have "renderMessage m =
      (line_break 4 @ str ''<div class=\"'' @ className m @ str '' '' @ feedbackHighlight m
       @ str ''\">'' @ line_break 5
       @ str ''<div class=\"font-medium text-gray-700 dark:text-gray-300\">''
       @ speaker m @ str ''</div>'' @ line_break 5
       @ str ''<div class=\"text-sm mt-1 text-gray-600 dark:text-gray-300\">'')
      @ displayContent m
      @ (str ''</div>'' @ line_break 5 @ feedbackMarker m @ line_break 4 @ str ''</div>''
         @ line_break 3)"
    by (simp add: renderMessage_def message_template_def)
  then show ?thesis by (intro exI)
qed

lemma renderMessage_around_marker:
  "\<exists>ps ss. renderMessage m = ps @ feedbackMarker m @ ss"
proof -
  have "renderMessage m =
      (line_break 4 @ str ''<div class=\"'' @ className m @ str '' '' @ feedbackHighlight m
       @ str ''\">'' @ line_break 5
       @ str ''<div class=\"font-medium text-gray-700 dark:text-gray-300\">''
       @ speaker m @ str ''</div>'' @ line_break 5
       @ str ''<div class=\"text-sm mt-1 text-gray-600 dark:text-gray-300\">''
       @ displayContent m @ str ''</div>'' @ line_break 5)
      @ feedbackMarker m
      @ (line_break 4 @ str ''</div>'' @ line_break 3)"
    by (simp add: renderMessage_def message_template_def)
  then show ?thesis by (intro exI)
qed

lemma renderMessage_around_speaker:
  "\<exists>ps ss. renderMessage m = ps @ speaker m @ ss"
proof -
  have "renderMessage m =
      (line_break 4 @ str ''<div class=\"'' @ className m @ str '' '' @ feedbackHighlight m
       @ str ''\">'' @ line_break 5
       @ str ''<div class=\"font-medium text-gray-700 dark:text-gray-300\">'')
      @ speaker m
      @ (str ''</div>'' @ line_break 5
       @ str ''<div class=\"text-sm mt-1 text-gray-600 dark:text-gray-300\">''
       @ displayContent m @ str ''</div>'' @ line_break 5 @ feedbackMarker m
       @ line_break 4 @ str ''</div>'' @ line_break 3)"
    by (simp add: renderMessage_def message_template_def)
  then show ?thesis by (intro exI)
qed

lemma sublist_inner: "sublist x y \<Longrightarrow> sublist x (ps @ y @ ss)"
proof -
  assume "sublist x y"
  then obtain p s where "y = p @ x @ s"
    by (auto simp: sublist_def)
  then have "ps @ y @ ss = (ps @ p) @ x @ (s @ ss)"
    by simp
  then show ?thesis
    unfolding sublist_def by (intro exI)
qed

lemma sublist_set: "sublist x y \<Longrightarrow> u \<in> set x \<Longrightarrow> u \<in> set y"
  by (auto simp: sublist_def)

lemma sublist_concat_member:
  "m \<in> set msgs \<Longrightarrow> sublist (f m) (concat (map f msgs))"
proof -
  assume "m \<in> set msgs"
  then obtain xs ys where "msgs = xs @ m # ys"
    by (auto dest: split_list)
  then have "concat (map f msgs) = concat (map f xs) @ f m @ concat (map f ys)"
    by simp
  then show ?thesis
    unfolding sublist_def by (intro exI)
qed

lemma bracket_in_marker: "91 \<in> set feedback_marker"
  by (simp add: feedback_marker_def str_def)

lemma no_bracket_in_template:
  "\<not> hasFeedback m \<Longrightarrow> 91 \<notin> set (displayContent m) \<Longrightarrow> 91 \<notin> set (renderMessage m)"
  by (simp add: renderMessage_def message_template_def className_def speaker_def
      feedbackHighlight_def feedbackMarker_def line_break_def str_def)

lemma formatConversation_single: "formatConversation (Some [m]) = renderMessage m"
  by simp

lemma placeholder_only_for_non_array:
  "formatConversation (Some msgs) \<noteq> formatConversation None"
proof (cases msgs)
  case Nil
  then show ?thesis
    by (simp add: noConversationData_def str_def)
next
  case (Cons m ms)
  have "hd (formatConversation (Some (m # ms))) = 10"
    by (simp add: renderMessage_def message_template_def line_break_def)
  moreover have "hd (formatConversation None) = 60"
    by (simp add: noConversationData_def str_def)
  ultimately show ?thesis
    using Cons by auto
qed

lemma displayContent_parts:
  "\<exists>ss. displayContent m = (case content m of None \<Rightarrow> [] | Some c \<Rightarrow> c) @ ss"
  unfolding displayContent_eq by (intro exI, rule refl)

lemma content_reaches_output:
  "content m = Some c \<Longrightarrow> sublist c (renderMessage m)"
proof -
  assume c: "content m = Some c"
  obtain ss where "displayContent m = (case content m of None \<Rightarrow> [] | Some c \<Rightarrow> c) @ ss"
    using displayContent_parts by blast
  with c have "displayContent m = [] @ c @ ss"
    by simp
  then have "sublist c (displayContent m)"
    unfolding sublist_def by (intro exI)
  moreover obtain ps ss where "renderMessage m = ps @ displayContent m @ ss"
    using renderMessage_around_content by blast
  ultimately show ?thesis
    by (simp add: sublist_inner)
qed

lemma error_reaches_output:
  assumes "error m = Some e" and "error_content e = Some t" and "t \<noteq> []"
  shows "sublist (str ''<div class=\"text-red-500 dark:text-red-400 text-xs mt-1\">''
            @ t @ str ''</div>'') (renderMessage m)"
proof -
  have "displayContent m = (case content m of None \<Rightarrow> [] | Some c \<Rightarrow> c)
      @ (str ''<div class=\"text-red-500 dark:text-red-400 text-xs mt-1\">'' @ t @ str ''</div>'')
      @ []"
    using assms by (simp add: displayContent_eq)
  then have "sublist (str ''<div class=\"text-red-500 dark:text-red-400 text-xs mt-1\">''
            @ t @ str ''</div>'') (displayContent m)"
    unfolding sublist_def by (intro exI)
  moreover obtain ps ss where "renderMessage m = ps @ displayContent m @ ss"
    using renderMessage_around_content by blast
  ultimately show ?thesis
    by (simp add: sublist_inner)
qed

lemma marker_reaches_output: "hasFeedback m \<Longrightarrow> sublist feedback_marker (renderMessage m)"
proof -
  assume "hasFeedback m"
  then have fm: "feedbackMarker m = feedback_marker"
    by (simp add: feedbackMarker_def)
  obtain ps ss where "renderMessage m = ps @ feedbackMarker m @ ss"
    using renderMessage_around_marker by blast
  then show ?thesis
    unfolding fm sublist_def by (intro exI)
qed

lemma speaker_reaches_output:
  "sublist (if role m = str ''user'' then str ''User'' else str ''Assistant'') (renderMessage m)"
proof -
  have sp: "speaker m = (if role m = str ''user'' then str ''User'' else str ''Assistant'')"
    by (simp add: speaker_def isUser_def)
  obtain ps ss where "renderMessage m = ps @ speaker m @ ss"
    using renderMessage_around_speaker by blast
  then show ?thesis
    unfolding sp sublist_def by (intro exI)
qed

lemma marker_iff_flagged:
  "91 \<notin> set (displayContent m) \<Longrightarrow>
     sublist feedback_marker (renderMessage m) \<longleftrightarrow> hasFeedback m"
  using marker_reaches_output [of m] no_bracket_in_template [of m]
    sublist_set [OF _ bracket_in_marker, of "renderMessage m"]
  by blast

lemma marker_iff_some_flagged:
  assumes "\<forall>x\<in>set msgs. 91 \<notin> set (displayContent x)"
  shows "sublist feedback_marker (formatConversation (Some msgs))
     \<longleftrightarrow> (\<exists>x\<in>set msgs. hasFeedback x)"
proof
  assume "sublist feedback_marker (formatConversation (Some msgs))"
  then have "91 \<in> set (formatConversation (Some msgs))"
    using bracket_in_marker by (rule sublist_set)
  then obtain x where x: "x \<in> set msgs" "91 \<in> set (renderMessage x)"
    by auto
  with assms no_bracket_in_template [of x] have "hasFeedback x"
    by blast
  with x show "\<exists>x\<in>set msgs. hasFeedback x"
    by blast
next
  assume "\<exists>x\<in>set msgs. hasFeedback x"
  then obtain x where x: "x \<in> set msgs" "hasFeedback x"
    by blast
  from x(2) have "sublist feedback_marker (renderMessage x)"
    by (rule marker_reaches_output)
  moreover from x(1) have "sublist (renderMessage x) (concat (map renderMessage msgs))"
    by (rule sublist_concat_member)
  ultimately have "sublist feedback_marker (concat (map renderMessage msgs))"
    by (rule sublist_order.order_trans)
  then show "sublist feedback_marker (formatConversation (Some msgs))"
    by simp
qed

text \<open>
  Claim C9. An argument that is not an array gives the single placeholder paragraph, and
  no array does. An array gives the concatenation, in input order, of one rendering per
  message: the empty array gives the empty string, a longer one the rendering of its
  first message followed by that of the rest, so every message's rendering occurs in the
  output. The rendering of one message is the template spelled out here. Its class
  and its speaker line, \<open>User\<close> or \<open>Assistant\<close>, follow the role. Its body is the content
  followed, when there is an error text, by that text in a block of its own. Its last
  line holds the received-feedback marker exactly when the message carries an annotation
  or a feedback id (a field carries a value when it is present and not the empty
  string). So the speaker, the content and the error block occur in the output, and so
  does the marker of a flagged message. The output is markup built from the message's
  own text, which could spell the marker itself; when the displayed content has no
  opening square bracket (code unit 91), the marker occurs in the rendering of a message
  if and only if the message is flagged, and in the rendering of a list if and only if
  one of its messages is.
\<close>

theorem formatConversation_rendering:
  "formatConversation None
     = str ''<p class=\"text-gray-500 dark:text-gray-400 text-sm\">No conversation data available</p>''
   \<and> formatConversation (Some msgs) \<noteq> formatConversation None
   \<and> formatConversation (Some []) = []
   \<and> formatConversation (Some (m # msgs))
       = formatConversation (Some [m]) @ formatConversation (Some msgs)
   \<and> formatConversation (Some (xs @ ys))
       = formatConversation (Some xs) @ formatConversation (Some ys)
   \<and> formatConversation (Some [m])
       = line_break 4 @ str ''<div class=\"''
         @ (if role m = str ''user''
            then str ''bg-gray-50 dark:bg-gray-800 p-3 rounded-lg mb-2''
            else str ''bg-gray-100 dark:bg-gray-700 p-3 rounded-lg mb-2'')
         @ str '' ''
         @ (if hasFeedback m then str ''border-2 border-red-500 dark:border-red-400'' else [])
         @ str ''\">''
         @ line_break 5 @ str ''<div class=\"font-medium text-gray-700 dark:text-gray-300\">''
         @ (if role m = str ''user'' then str ''User'' else str ''Assistant'')
         @ str ''</div>''
         @ line_break 5 @ str ''<div class=\"text-sm mt-1 text-gray-600 dark:text-gray-300\">''
         @ displayContent m
         @ str ''</div>''
         @ line_break 5
         @ (if hasFeedback m then feedback_marker else [])
         @ line_break 4 @ str ''</div>''
         @ line_break 3
   \<and> line_break n = 10 # replicate n 9
   \<and> feedback_marker
       = str ''<div class=\"text-red-500 dark:text-red-400 text-xs font-medium mt-1\">[This message received feedback]</div>''
   \<and> (hasFeedback m \<longleftrightarrow>
        (\<exists>a. annotation m = Some a \<and> a \<noteq> []) \<or> (\<exists>i. feedbackId m = Some i \<and> i \<noteq> []))
   \<and> displayContent m
       = (case content m of None \<Rightarrow> [] | Some c \<Rightarrow> c)
         @ (case error m of
              None \<Rightarrow> []
            | Some e \<Rightarrow>
                (case error_content e of
                   None \<Rightarrow> []
                 | Some t \<Rightarrow>
                     if t = [] then []
                     else str ''<div class=\"text-red-500 dark:text-red-400 text-xs mt-1\">''
                          @ t @ str ''</div>''))
   \<and> (\<forall>x\<in>set msgs.
         sublist (formatConversation (Some [x])) (formatConversation (Some msgs)))
   \<and> sublist (if role m = str ''user'' then str ''User'' else str ''Assistant'')
        (formatConversation (Some [m]))
   \<and> (\<forall>c. content m = Some c \<longrightarrow> sublist c (formatConversation (Some [m])))
   \<and> (\<forall>e t. error m = Some e \<and> error_content e = Some t \<and> t \<noteq> [] \<longrightarrow>
         sublist (str ''<div class=\"text-red-500 dark:text-red-400 text-xs mt-1\">''
                  @ t @ str ''</div>'') (formatConversation (Some [m])))
   \<and> (hasFeedback m \<longrightarrow> sublist feedback_marker (formatConversation (Some [m])))
   \<and> (91 \<notin> set (displayContent m) \<longrightarrow>
        (sublist feedback_marker (formatConversation (Some [m])) \<longleftrightarrow> hasFeedback m))
   \<and> ((\<forall>x\<in>set msgs. 91 \<notin> set (displayContent x)) \<longrightarrow>
        (sublist feedback_marker (formatConversation (Some msgs))
           \<longleftrightarrow> (\<exists>x\<in>set msgs. hasFeedback x)))"
proof -
  have c1: "formatConversation None
     = str ''<p class=\"text-gray-500 dark:text-gray-400 text-sm\">No conversation data available</p>''"
    by (simp add: noConversationData_def)
  have c3: "formatConversation (Some []) = []"
    by simp
  have c4: "formatConversation (Some (m # msgs))
       = formatConversation (Some [m]) @ formatConversation (Some msgs)"
    by simp
  have c5: "formatConversation (Some (xs @ ys))
       = formatConversation (Some xs) @ formatConversation (Some ys)"
    by simp
  have c7: "line_break n = 10 # replicate n 9"
    by (simp add: line_break_def)
  have c11: "\<forall>x\<in>set msgs.
         sublist (formatConversation (Some [x])) (formatConversation (Some msgs))"
    unfolding formatConversation_single
    by (simp add: sublist_concat_member)
  have c13: "\<forall>c. content m = Some c \<longrightarrow> sublist c (formatConversation (Some [m]))"
    unfolding formatConversation_single by (simp add: content_reaches_output)
  have c14: "\<forall>e t. error m = Some e \<and> error_content e = Some t \<and> t \<noteq> [] \<longrightarrow>
         sublist (str ''<div class=\"text-red-500 dark:text-red-400 text-xs mt-1\">''
                  @ t @ str ''</div>'') (formatConversation (Some [m]))"
    unfolding formatConversation_single using error_reaches_output [of m] by blast
  have c15: "hasFeedback m \<longrightarrow> sublist feedback_marker (formatConversation (Some [m]))"
    unfolding formatConversation_single using marker_reaches_output [of m] by blast
  have c16: "91 \<notin> set (displayContent m) \<longrightarrow>
        (sublist feedback_marker (formatConversation (Some [m])) \<longleftrightarrow> hasFeedback m)"
    unfolding formatConversation_single using marker_iff_flagged [of m] by blast
  have c17: "(\<forall>x\<in>set msgs. 91 \<notin> set (displayContent x)) \<longrightarrow>
        (sublist feedback_marker (formatConversation (Some msgs))
           \<longleftrightarrow> (\<exists>x\<in>set msgs. hasFeedback x))"
    using marker_iff_some_flagged [of msgs] by blast
  show ?thesis
    apply (intro conjI)
    apply (rule c1)
    apply (rule placeholder_only_for_non_array)
    apply (rule c3)
    apply (rule c4)
    apply (rule c5)
    apply (unfold formatConversation_single, rule renderMessage_eq) [1]
    apply (rule c7)
    apply (rule feedback_marker_def)
    apply (rule hasFeedback_iff)
    apply (rule displayContent_eq)
    apply (rule c11)
    apply (unfold formatConversation_single, rule speaker_reaches_output) [1]
    apply (rule c13)
    apply (rule c14)
    apply (rule c15)
    apply (rule c16)
    apply (rule c17)
    done
qed

text \<open>
  The rendering of a user message followed by a flagged assistant message, character by
  character; the marker occurs for the flagged message and not for the plain one; the
  content and the error block occur in the output.
\<close>

theorem formatConversation_rendering_witness:
  "formatConversation (Some [user_message, flagged_message])
     = [10, 9, 9, 9, 9]
       @ str ''<div class=\"bg-gray-50 dark:bg-gray-800 p-3 rounded-lg mb-2 \">''
       @ [10, 9, 9, 9, 9, 9]
       @ str ''<div class=\"font-medium text-gray-700 dark:text-gray-300\">User</div>''
       @ [10, 9, 9, 9, 9, 9]
       @ str ''<div class=\"text-sm mt-1 text-gray-600 dark:text-gray-300\">hi</div>''
       @ [10, 9, 9, 9, 9, 9]
       @ [10, 9, 9, 9, 9] @ str ''</div>''
       @ [10, 9, 9, 9]
       @ [10, 9, 9, 9, 9]
       @ str ''<div class=\"bg-gray-100 dark:bg-gray-700 p-3 rounded-lg mb-2 border-2 border-red-500 dark:border-red-400\">''
       @ [10, 9, 9, 9, 9, 9]
       @ str ''<div class=\"font-medium text-gray-700 dark:text-gray-300\">Assistant</div>''
       @ [10, 9, 9, 9, 9, 9]
       @ str ''<div class=\"text-sm mt-1 text-gray-600 dark:text-gray-300\">ok</div>''
       @ [10, 9, 9, 9, 9, 9]
       @ str ''<div class=\"text-red-500 dark:text-red-400 text-xs font-medium mt-1\">[This message received feedback]</div>''
       @ [10, 9, 9, 9, 9] @ str ''</div>''
       @ [10, 9, 9, 9]
   \<and> hasFeedback flagged_message
   \<and> sublist feedback_marker (formatConversation (Some [flagged_message]))
   \<and> 91 \<notin> set (displayContent user_message)
   \<and> \<not> hasFeedback user_message
   \<and> \<not> sublist feedback_marker (formatConversation (Some [user_message]))
   \<and> list_all (\<lambda>x. 91 \<notin> set (displayContent x)) [user_message, flagged_message, failed_message]
   \<and> sublist feedback_marker
        (formatConversation (Some [user_message, flagged_message, failed_message]))
   \<and> content user_message = Some (str ''hi'')
   \<and> sublist (str ''hi'') (formatConversation (Some [user_message]))
   \<and> sublist (str ''<div class=\"text-red-500 dark:text-red-400 text-xs mt-1\">''
               @ str ''boom'' @ str ''</div>'') (formatConversation (Some [failed_message]))"
proof -
  note T = formatConversation_rendering
  have out: "formatConversation (Some [user_message, flagged_message])
     = [10, 9, 9, 9, 9]
       @ str ''<div class=\"bg-gray-50 dark:bg-gray-800 p-3 rounded-lg mb-2 \">''
       @ [10, 9, 9, 9, 9, 9]
       @ str ''<div class=\"font-medium text-gray-700 dark:text-gray-300\">User</div>''
       @ [10, 9, 9, 9, 9, 9]
       @ str ''<div class=\"text-sm mt-1 text-gray-600 dark:text-gray-300\">hi</div>''
       @ [10, 9, 9, 9, 9, 9]
       @ [10, 9, 9, 9, 9] @ str ''</div>''
       @ [10, 9, 9, 9]
       @ [10, 9, 9, 9, 9]
       @ str ''<div class=\"bg-gray-100 dark:bg-gray-700 p-3 rounded-lg mb-2 border-2 border-red-500 dark:border-red-400\">''
       @ [10, 9, 9, 9, 9, 9]
       @ str ''<div class=\"font-medium text-gray-700 dark:text-gray-300\">Assistant</div>''
       @ [10, 9, 9, 9, 9, 9]
       @ str ''<div class=\"text-sm mt-1 text-gray-600 dark:text-gray-300\">ok</div>''
       @ [10, 9, 9, 9, 9, 9]
       @ str ''<div class=\"text-red-500 dark:text-red-400 text-xs font-medium mt-1\">[This message received feedback]</div>''
       @ [10, 9, 9, 9, 9] @ str ''</div>''
       @ [10, 9, 9, 9]"
    by code_simp
  have f: "hasFeedback flagged_message"
    by code_simp
  have fs: "sublist feedback_marker (formatConversation (Some [flagged_message]))"
    using T [where m = flagged_message and msgs = "[]" and xs = "[]" and ys = "[]" and n = 0]
      f by blast
  have nb: "91 \<notin> set (displayContent user_message)"
    by code_simp
  have nf: "\<not> hasFeedback user_message"
    by code_simp
  have ns: "\<not> sublist feedback_marker (formatConversation (Some [user_message]))"
    using T [where m = user_message and msgs = "[]" and xs = "[]" and ys = "[]" and n = 0]
      nb nf by blast
  have la: "list_all (\<lambda>x. 91 \<notin> set (displayContent x))
      [user_message, flagged_message, failed_message]"
    by code_simp
  then have ball: "\<forall>x\<in>set [user_message, flagged_message, failed_message].
      91 \<notin> set (displayContent x)"
    by (simp add: list_all_iff)
  have ex: "\<exists>x\<in>set [user_message, flagged_message, failed_message]. hasFeedback x"
    using f by simp
  have ls: "sublist feedback_marker
      (formatConversation (Some [user_message, flagged_message, failed_message]))"
    using T [where m = user_message
        and msgs = "[user_message, flagged_message, failed_message]"
        and xs = "[]" and ys = "[]" and n = 0]
      ball ex by blast
  have c: "content user_message = Some (str ''hi'')"
    by code_simp
  have cs: "sublist (str ''hi'') (formatConversation (Some [user_message]))"
    using T [where m = user_message and msgs = "[]" and xs = "[]" and ys = "[]" and n = 0]
      c by blast
  have e: "error failed_message = Some \<lparr>error_content = Some (str ''boom'')\<rparr>
      \<and> error_content \<lparr>error_content = Some (str ''boom'')\<rparr> = Some (str ''boom'')
      \<and> str ''boom'' \<noteq> []"
    by code_simp
  have es: "sublist (str ''<div class=\"text-red-500 dark:text-red-400 text-xs mt-1\">''
               @ str ''boom'' @ str ''</div>'') (formatConversation (Some [failed_message]))"
    using T [where m = failed_message and msgs = "[]" and xs = "[]" and ys = "[]" and n = 0]
      e by blast
  from out f fs nb nf ns la ls c cs es show ?thesis
    by (intro conjI) (elim conjE | assumption)+
qed

section \<open>Records without a rating\<close>

lemma absent_rating:
  "(case data item of None \<Rightarrow> True | Some d \<Rightarrow> rating d = None) \<Longrightarrow> data_rating item = None"
  by (simp add: data_rating_def split: option.splits)

text \<open>
  Claim C10. A record whose \<open>data\<close> field or whose \<open>data.rating\<close> field is absent is read
  without failure (no branch of the two operations raises on it): it counts towards
  \<open>totalItems\<close> and towards neither \<open>positiveCount\<close> nor \<open>negativeCount\<close>, is never in the
  output of mode \<open>positive\<close> or \<open>negative\<close>, and is in the output of mode \<open>all\<close> and in the
  list displayed after processing.
\<close>

theorem absent_rating_is_neutral:
  "(case data item of None \<Rightarrow> True | Some d \<Rightarrow> rating d = None) \<longrightarrow>
     totalItems (processFeedbackData lc (xs @ item # ys) st) = length xs + length ys + 1
     \<and> positiveCount (processFeedbackData lc (xs @ item # ys) st)
         = positiveCount (processFeedbackData lc (xs @ ys) st)
     \<and> negativeCount (processFeedbackData lc (xs @ item # ys) st)
         = negativeCount (processFeedbackData lc (xs @ ys) st)
     \<and> item \<notin> set (parsedFeedbacksData
         (filterFeedbackItems lc (str ''positive'') q
            (processFeedbackData lc (xs @ item # ys) st)))
     \<and> item \<notin> set (parsedFeedbacksData
         (filterFeedbackItems lc (str ''negative'') q
            (processFeedbackData lc (xs @ item # ys) st)))
     \<and> item \<in> set (parsedFeedbacksData
         (filterFeedbackItems lc (str ''all'') (str '''')
            (processFeedbackData lc (xs @ item # ys) st)))
     \<and> item \<in> set (parsedFeedbacksData (processFeedbackData lc (xs @ item # ys) st))"
proof
  assume "case data item of None \<Rightarrow> True | Some d \<Rightarrow> rating d = None"
  then have r: "data_rating item = None"
    by (rule absent_rating)
  have orig: "originalFeedbacksData (processFeedbackData lc (xs @ item # ys) st)
      = xs @ item # ys"
    by (simp add: processFeedbackData_eq)
  show "totalItems (processFeedbackData lc (xs @ item # ys) st) = length xs + length ys + 1
     \<and> positiveCount (processFeedbackData lc (xs @ item # ys) st)
         = positiveCount (processFeedbackData lc (xs @ ys) st)
     \<and> negativeCount (processFeedbackData lc (xs @ item # ys) st)
         = negativeCount (processFeedbackData lc (xs @ ys) st)
     \<and> item \<notin> set (parsedFeedbacksData
         (filterFeedbackItems lc (str ''positive'') q
            (processFeedbackData lc (xs @ item # ys) st)))
     \<and> item \<notin> set (parsedFeedbacksData
         (filterFeedbackItems lc (str ''negative'') q
            (processFeedbackData lc (xs @ item # ys) st)))
     \<and> item \<in> set (parsedFeedbacksData
         (filterFeedbackItems lc (str ''all'') (str '''')
            (processFeedbackData lc (xs @ item # ys) st)))
     \<and> item \<in> set (parsedFeedbacksData (processFeedbackData lc (xs @ item # ys) st))"
    using r by (simp add: parsed_filterFeedbackItems orig trim_Nil truthy_def str_Nil str_eq_iff)
      (simp add: processFeedbackData_eq)
qed

text \<open>
  A record without \<open>data\<close> between a positive and a negative one.
\<close>

theorem absent_rating_is_neutral_witness:
  "data unrated = None
   \<and> totalItems (processFeedbackData example_toLowerCase [won, unrated, lost] initial_state) = 3
   \<and> positiveCount (processFeedbackData example_toLowerCase [won, unrated, lost] initial_state) = 1
   \<and> negativeCount (processFeedbackData example_toLowerCase [won, unrated, lost] initial_state) = 1
   \<and> unrated \<notin> set (parsedFeedbacksData
        (filterFeedbackItems example_toLowerCase (str ''positive'') (str '''')
           (processFeedbackData example_toLowerCase [won, unrated, lost] initial_state)))
   \<and> unrated \<notin> set (parsedFeedbacksData
        (filterFeedbackItems example_toLowerCase (str ''negative'') (str '''')
           (processFeedbackData example_toLowerCase [won, unrated, lost] initial_state)))
   \<and> unrated \<in> set (parsedFeedbacksData
        (filterFeedbackItems example_toLowerCase (str ''all'') (str '''')
           (processFeedbackData example_toLowerCase [won, unrated, lost] initial_state)))"
proof -
  have h: "data unrated = None"
    by code_simp
  then have h': "case data unrated of None \<Rightarrow> True | Some d \<Rightarrow> rating d = None"
    by simp
  have p: "positiveCount (processFeedbackData example_toLowerCase ([won] @ [lost]) initial_state) = 1
      \<and> negativeCount (processFeedbackData example_toLowerCase ([won] @ [lost]) initial_state) = 1"
    by code_simp
  note T = absent_rating_is_neutral [of unrated example_toLowerCase "[won]" "[lost]" initial_state
      "str ''''", THEN mp, OF h']
  show ?thesis
    using h p T by simp
qed

end
